theory Spec2Isabelle
  imports Complex_Main "HOL-Library.Sublist"
begin

section \<open>Learner snapshots and the plotting backend\<close>

text \<open>
  The module \<^verbatim>\<open>pystruct/plot_learning.py\<close> probes a trained learner for optional
  attributes with \<^verbatim>\<open>hasattr\<close> and sends plotting calls to matplotlib axes.
  A learner is modelled as a value whose attributes are each optional; reading an
  absent attribute raises \<^verbatim>\<open>AttributeError\<close>. Curves are arrays of numbers; the numbers
  are modelled as exact reals, so floating-point rounding is not part of the model.
  A numpy array indexed by a boolean mask of another length raises \<^verbatim>\<open>IndexError\<close>.
  Integers are \<^verbatim>\<open>int64\<close> values. The attributes \<^verbatim>\<open>iterations_\<close>,
  \<^verbatim>\<open>dual_objective_curve_\<close> and so on are written without their final underscore,
  the local variable \<^verbatim>\<open>iterations\<close> is written \<open>its\<close> and the parameter
  \<^verbatim>\<open>prefix\<close> is written \<open>pfx\<close>.
\<close>

datatype py_error = AttributeError | IndexError | ValueError | TypeError

text \<open>
  The curves are only measured, converted with \<^verbatim>\<open>np.array\<close> or handed to matplotlib,
  which a Python list and a numpy array serve alike. The attribute \<^verbatim>\<open>iterations_\<close> is
  used as it is: line 113 indexes it with the boolean mask, which a numpy array supports
  and a Python list does not. The learner therefore records which of the two its
  \<^verbatim>\<open>iterations_\<close> is (of no meaning when the attribute is absent).
\<close>

datatype seq_kind = PyList | NumpyArray

datatype snapshot = Snapshot
  (iterations: "int list option")
  (dual_objective_curve: "real list option")
  (primal_objective_curve: "real list option")
  (loss_curve: "real list option")
  (timestamps: "real list option")
  (cached_constraint: "bool list option")
  (show_loss_every: "int option")
  (base_ssvm: "snapshot option")
  (iterations_kind: seq_kind)

text \<open>
  A call received by one matplotlib axes object: \<^verbatim>\<open>set_xlabel\<close>, \<^verbatim>\<open>set_title\<close>,
  \<^verbatim>\<open>set_yscale\<close>, \<^verbatim>\<open>legend(loc=...)\<close> and \<^verbatim>\<open>plot(x, y, fmt, label=...)\<close>.
  The call \<^verbatim>\<open>plot(y)\<close> is recorded with the x-values matplotlib supplies for it,
  the indices \<open>0..len(y)-1\<close>.
\<close>

datatype draw_cmd =
    SetXLabel string
  | SetTitle string
  | SetYScale string
  | Legend string
  | Plot (plot_x: "real list") (plot_y: "real list") (plot_fmt: "string option")
      (plot_label: "string option")

text \<open>
  An axes object is the list of calls it has received so far. \<^verbatim>\<open>plt.subplots(1, n)\<close>
  returns one axes object for \<open>n = 1\<close> and a numpy array of axes objects otherwise;
  the array is not a \<^verbatim>\<open>list\<close> and has none of the axes methods.
\<close>

datatype axes_obj = Axes "draw_cmd list" | NdArray "draw_cmd list list"

datatype axes_arg = AxesNone | AxesObj axes_obj | AxesList "axes_obj list"

section \<open>Errors as values\<close>

definition err_bind :: "py_error + 'a \<Rightarrow> ('a \<Rightarrow> py_error + 'b) \<Rightarrow> py_error + 'b" where
  "err_bind m f = (case m of Inl e \<Rightarrow> Inl e | Inr x \<Rightarrow> f x)"

definition getattr :: "'a option \<Rightarrow> py_error + 'a" where
  "getattr a = (case a of None \<Rightarrow> Inl AttributeError | Some v \<Rightarrow> Inr v)"

definition hasattr :: "'a option \<Rightarrow> bool" where
  "hasattr a = (a \<noteq> None)"

section \<open>Array primitives\<close>

definition arange :: "nat \<Rightarrow> int list" where
  "arange n = map int [0..<n]"

text \<open>\<^verbatim>\<open>xs[-1]\<close>: the last element, \<^verbatim>\<open>IndexError\<close> on an empty sequence.\<close>

definition py_last :: "'a list \<Rightarrow> py_error + 'a" where
  "py_last xs = (if xs = [] then Inl IndexError else Inr (last xs))"

text \<open>\<^verbatim>\<open>np.max\<close> raises \<^verbatim>\<open>ValueError\<close> on an array of size zero.\<close>

definition np_max :: "int list \<Rightarrow> py_error + int" where
  "np_max xs = (case xs of [] \<Rightarrow> Inl ValueError | x # ys \<Rightarrow> Inr (fold max ys x))"

definition np_any :: "bool list \<Rightarrow> bool" where
  "np_any bs = list_ex (\<lambda>b. b) bs"

text \<open>\<^verbatim>\<open>xs[mask]\<close> for a numpy array \<open>xs\<close> and a boolean array \<open>mask\<close>: the lengths
  must agree.\<close>

definition bool_index :: "'a list \<Rightarrow> bool list \<Rightarrow> py_error + 'a list" where
  "bool_index xs msk =
     (if length msk \<noteq> length xs then Inl IndexError
      else Inr (map fst (filter snd (zip xs msk))))"

text \<open>\<^verbatim>\<open>xs[mask]\<close> for a sequence of either kind: a Python list cannot be indexed
  with an array of booleans and raises \<^verbatim>\<open>TypeError\<close>.\<close>

definition seq_bool_index :: "seq_kind \<Rightarrow> 'a list \<Rightarrow> bool list \<Rightarrow> py_error + 'a list" where
  "seq_bool_index kind xs msk =
     (case kind of PyList \<Rightarrow> Inl TypeError | NumpyArray \<Rightarrow> bool_index xs msk)"

text \<open>Arithmetic on a numpy \<^verbatim>\<open>int64\<close> wraps around.\<close>

definition int64_wrap :: "int \<Rightarrow> int" where
  "int64_wrap n = (n + 2 ^ 63) mod 2 ^ 64 - 2 ^ 63"

text \<open>
  \<^verbatim>\<open>xs[::k]\<close>: for a positive step the elements at positions \<open>0, k, 2k, ...\<close>; for a
  negative step the same walk from the last element backwards; a zero step raises
  \<^verbatim>\<open>ValueError\<close>.
\<close>

fun every_nth :: "nat \<Rightarrow> 'a list \<Rightarrow> 'a list" where
  "every_nth n [] = []"
| "every_nth n (x # xs) = x # every_nth n (drop (n - 1) xs)"

definition slice_step :: "int \<Rightarrow> 'a list \<Rightarrow> py_error + 'a list" where
  "slice_step k xs =
     (if k = 0 then Inl ValueError
      else if 0 < k then Inr (every_nth (nat k) xs)
      else Inr (every_nth (nat (- k)) (rev xs)))"

section \<open>Calls on the axes list\<close>

definition subplots :: "nat \<Rightarrow> axes_obj" where
  "subplots n = (if n = 1 then Axes [] else NdArray (replicate n []))"

text \<open>
  \<^verbatim>\<open>axes[i].method(...)\<close>: \<^verbatim>\<open>IndexError\<close> when the list is too short,
  \<^verbatim>\<open>AttributeError\<close> when the element is not an axes object; otherwise the call is
  appended to what that axes object has received.
\<close>

definition ax_call :: "nat \<Rightarrow> draw_cmd \<Rightarrow> axes_obj list \<Rightarrow> py_error + axes_obj list" where
  "ax_call i c axes =
     (if length axes \<le> i then Inl IndexError
      else (case axes ! i of
              NdArray _ \<Rightarrow> Inl AttributeError
            | Axes p \<Rightarrow> Inr (axes[i := Axes (p @ [c])])))"

text \<open>\<^verbatim>\<open>axes[i].plot(x, y, ...)\<close>: matplotlib raises \<^verbatim>\<open>ValueError\<close> when x and y differ in length.\<close>

definition ax_plot ::
  "nat \<Rightarrow> real list \<Rightarrow> real list \<Rightarrow> string option \<Rightarrow> string option \<Rightarrow> axes_obj list
    \<Rightarrow> py_error + axes_obj list" where
  "ax_plot i x y fmt label axes =
     (if length axes \<le> i then Inl IndexError
      else (case axes ! i of
              NdArray _ \<Rightarrow> Inl AttributeError
            | Axes p \<Rightarrow>
                if length x \<noteq> length y then Inl ValueError
                else Inr (axes[i := Axes (p @ [Plot x y fmt label])])))"

section \<open>The function \<^verbatim>\<open>plot_learning\<close>\<close>

text \<open>Lines 67-68: one level of unwrapping.\<close>

definition unwrap :: "snapshot \<Rightarrow> snapshot" where
  "unwrap ssvm = (case base_ssvm ssvm of Some b \<Rightarrow> b | None \<Rightarrow> ssvm)"

text \<open>Lines 72, 74 and 77: the value assigned to \<^verbatim>\<open>iterations\<close>.\<close>

definition iteration_axis :: "snapshot \<Rightarrow> py_error + int list" where
  "iteration_axis ssvm =
     (case iterations ssvm of
        Some its \<Rightarrow> Inr its
      | None \<Rightarrow>
          if hasattr (dual_objective_curve ssvm) then
            err_bind (getattr (dual_objective_curve ssvm)) (\<lambda>d. Inr (arange (length d)))
          else
            err_bind (getattr (primal_objective_curve ssvm)) (\<lambda>p. Inr (arange (length p))))"

text \<open>Lines 75 and 78: the last objective value is printed in the two branches that
  synthesize the axis; \<^verbatim>\<open>curve[-1]\<close> fails on an empty curve. The result is the value
  printed, if any.\<close>

definition report_objective :: "snapshot \<Rightarrow> py_error + real option" where
  "report_objective ssvm =
     (case iterations ssvm of
        Some its \<Rightarrow> Inr None
      | None \<Rightarrow>
          if hasattr (dual_objective_curve ssvm) then
            err_bind (getattr (dual_objective_curve ssvm)) (\<lambda>d.
            err_bind (py_last d) (\<lambda>v. Inr (Some v)))
          else
            err_bind (getattr (primal_objective_curve ssvm)) (\<lambda>p.
            err_bind (py_last p) (\<lambda>v. Inr (Some v))))"

text \<open>Lines 70-78: in each branch the assignment comes first, then the print.\<close>

definition get_iterations :: "snapshot \<Rightarrow> py_error + int list" where
  "get_iterations ssvm =
     err_bind (iteration_axis ssvm) (\<lambda>its.
     err_bind (report_objective ssvm) (\<lambda>_. Inr its))"

text \<open>Line 80: the reported number of iterations, an \<^verbatim>\<open>int64\<close>.\<close>

definition step_count :: "int list \<Rightarrow> py_error + int" where
  "step_count its = err_bind (np_max its) (\<lambda>m. Inr (int64_wrap (m + 1)))"

text \<open>Lines 81-85: the inference mask.\<close>

definition get_inference_run :: "snapshot \<Rightarrow> bool list option" where
  "get_inference_run ssvm =
     (case cached_constraint ssvm of
        None \<Rightarrow> None
      | Some c \<Rightarrow> if np_any c then Some (map Not c) else None)"

text \<open>Lines 86-89.\<close>

definition n_plots :: "snapshot \<Rightarrow> nat" where
  "n_plots ssvm = (if hasattr (loss_curve ssvm) then 2 else 1)"

text \<open>Lines 90-93.\<close>

definition normalise_axes :: "axes_arg \<Rightarrow> nat \<Rightarrow> axes_obj list" where
  "normalise_axes axes n =
     (case axes of
        AxesNone \<Rightarrow> [subplots n]
      | AxesObj a \<Rightarrow> [a]
      | AxesList as \<Rightarrow> as)"

text \<open>Lines 95-101: the x-axis shared by the curves of this learner, and its kind: the
  timestamps are converted to an array, the iteration axis is \<^verbatim>\<open>iterations_\<close> as it is
  or the array that \<^verbatim>\<open>np.arange\<close> made.\<close>

definition inds_kind :: "snapshot \<Rightarrow> bool \<Rightarrow> seq_kind" where
  "inds_kind ssvm time =
     (if time then NumpyArray
      else if hasattr (iterations ssvm) then iterations_kind ssvm
      else NumpyArray)"

definition time_axis :: "real list \<Rightarrow> real list" where
  "time_axis ts = map (\<lambda>t. t / 60) (drop 1 ts)"

definition select_x_axis ::
  "snapshot \<Rightarrow> bool \<Rightarrow> int list \<Rightarrow> axes_obj list \<Rightarrow> py_error + (real list \<times> axes_obj list)" where
  "select_x_axis ssvm time its axes =
     (if time then
        err_bind (getattr (timestamps ssvm)) (\<lambda>ts.
        err_bind (ax_call 0 (SetXLabel ''training time (min)'') axes) (\<lambda>axes1.
        Inr (time_axis ts, axes1)))
      else
        err_bind (ax_call 0 (SetXLabel ''Passes through training data'') axes) (\<lambda>axes1.
        Inr (map real_of_int its, axes1)))"

text \<open>Lines 104-106.\<close>

definition plot_dual ::
  "snapshot \<Rightarrow> real list \<Rightarrow> string \<Rightarrow> axes_obj list \<Rightarrow> py_error + axes_obj list" where
  "plot_dual ssvm inds pfx axes =
     (case dual_objective_curve ssvm of
        None \<Rightarrow> Inr axes
      | Some d \<Rightarrow>
          err_bind (ax_plot 0 inds d (Some ''--'') (Some (pfx @ ''dual objective'')) axes)
            (\<lambda>axes1. ax_call 0 (SetYScale ''log'') axes1))"

text \<open>Lines 107-110.\<close>

definition primal_label :: "string \<Rightarrow> bool list option \<Rightarrow> string" where
  "primal_label pfx inference_run =
     (if inference_run \<noteq> None then pfx @ ''cached primal objective''
      else pfx @ ''primal objective'')"

definition plot_primal ::
  "snapshot \<Rightarrow> real list \<Rightarrow> bool list option \<Rightarrow> string \<Rightarrow> axes_obj list
    \<Rightarrow> py_error + axes_obj list" where
  "plot_primal ssvm inds inference_run pfx axes =
     (case primal_objective_curve ssvm of
        None \<Rightarrow> Inr axes
      | Some p \<Rightarrow> ax_plot 0 inds p None (Some (primal_label pfx inference_run)) axes)"

text \<open>Line 112: the mask is cut to the length of the dual objective curve, which
  is read without a presence check.\<close>

definition truncate_mask :: "snapshot \<Rightarrow> bool list \<Rightarrow> py_error + bool list" where
  "truncate_mask ssvm msk =
     err_bind (getattr (dual_objective_curve ssvm)) (\<lambda>d. Inr (take (length d) msk))"

text \<open>Lines 111-115; \<open>kind\<close> is the kind of the x-axis \<open>inds\<close>, which line 113 indexes
  with the cut mask, before line 114 reads the primal objective curve.\<close>

definition plot_inference ::
  "snapshot \<Rightarrow> seq_kind \<Rightarrow> real list \<Rightarrow> bool list option \<Rightarrow> string \<Rightarrow> axes_obj list
    \<Rightarrow> py_error + axes_obj list" where
  "plot_inference ssvm kind inds inference_run pfx axes =
     (case inference_run of
        None \<Rightarrow> Inr axes
      | Some msk0 \<Rightarrow>
          err_bind (truncate_mask ssvm msk0) (\<lambda>msk.
          err_bind (seq_bool_index kind inds msk) (\<lambda>x.
          err_bind (getattr (primal_objective_curve ssvm)) (\<lambda>p.
          err_bind (bool_index p msk) (\<lambda>y.
          ax_plot 0 x y (Some ''o'') (Some (pfx @ ''primal'')) axes)))))"

text \<open>Lines 123-126: the bare \<^verbatim>\<open>except\<close> catches every error of the first call.\<close>

definition index_axis :: "'a list \<Rightarrow> real list" where
  "index_axis ys = map real [0..<length ys]"

definition plot_loss ::
  "snapshot \<Rightarrow> real list \<Rightarrow> real list \<Rightarrow> axes_obj list \<Rightarrow> py_error + axes_obj list" where
  "plot_loss ssvm inds loss axes =
     (case err_bind (getattr (show_loss_every ssvm)) (\<lambda>k.
           err_bind (slice_step k inds) (\<lambda>xs.
           ax_plot 1 xs loss None None axes)) of
        Inr axes1 \<Rightarrow> Inr axes1
      | Inl _ \<Rightarrow> ax_plot 1 (index_axis loss) loss None None axes)"

text \<open>Lines 117-129.\<close>

definition error_panel ::
  "snapshot \<Rightarrow> bool \<Rightarrow> real list \<Rightarrow> axes_obj list \<Rightarrow> py_error + axes_obj list" where
  "error_panel ssvm time inds axes =
     (if n_plots ssvm = 2 then
        err_bind (ax_call 1 (SetXLabel (if time then ''training time (min)''
                                        else ''Passes through training data'')) axes) (\<lambda>axes1.
        err_bind (getattr (loss_curve ssvm)) (\<lambda>loss.
        err_bind (plot_loss ssvm inds loss axes1) (\<lambda>axes2.
        err_bind (ax_call 1 (SetTitle ''Training Error'') axes2) (\<lambda>axes3.
        ax_call 1 (SetYScale ''log'') axes3))))
      else Inr axes)"

text \<open>The whole function. An error aborts the call; the result is then the error.\<close>

definition plot_learning ::
  "snapshot \<Rightarrow> bool \<Rightarrow> axes_arg \<Rightarrow> string \<Rightarrow> py_error + axes_obj list" where
  "plot_learning ssvm0 time axes0 pfx =
     (let ssvm = unwrap ssvm0 in
      err_bind (get_iterations ssvm) (\<lambda>its.
      err_bind (step_count its) (\<lambda>_.
      let inference_run = get_inference_run ssvm;
          axes = normalise_axes axes0 (n_plots ssvm) in
      err_bind (select_x_axis ssvm time its axes) (\<lambda>(inds, axes1).
      err_bind (ax_call 0 (SetTitle ''Objective'') axes1) (\<lambda>axes2.
      err_bind (plot_dual ssvm inds pfx axes2) (\<lambda>axes3.
      err_bind (plot_primal ssvm inds inference_run pfx axes3) (\<lambda>axes4.
      err_bind (plot_inference ssvm (inds_kind ssvm time) inds inference_run pfx axes4) (\<lambda>axes5.
      err_bind (ax_call 0 (Legend ''best'') axes5) (\<lambda>axes6.
      error_panel ssvm time inds axes6)))))))))"

section \<open>The function \<^verbatim>\<open>main\<close>\<close>

text \<open>Lines 27-30: the panel count of the batch, probed on the loaded objects.\<close>

definition main_n_plots :: "snapshot list \<Rightarrow> nat" where
  "main_n_plots ssvms = (if np_any (map (\<lambda>ssvm. hasattr (loss_curve ssvm)) ssvms) then 2 else 1)"

text \<open>Line 35: \<^verbatim>\<open>file_name[:-7] + " "\<close>.\<close>

definition legend_prefix :: "nat \<Rightarrow> string \<Rightarrow> string" where
  "legend_prefix n file_name = (if 1 < n then take (length file_name - 7) file_name @ '' '' else [])"

text \<open>Lines 32-36: every call receives the object returned by \<^verbatim>\<open>plt.subplots\<close>,
  which \<^verbatim>\<open>plot_learning\<close> wraps into a one-element list and updates in place.\<close>

fun main_loop :: "bool \<Rightarrow> nat \<Rightarrow> (string \<times> snapshot) list \<Rightarrow> axes_obj \<Rightarrow> py_error + axes_obj" where
  "main_loop time n [] ax = Inr ax"
| "main_loop time n ((file_name, ssvm) # rest) ax =
     err_bind (plot_learning ssvm time (AxesObj ax) (legend_prefix n file_name))
       (\<lambda>axes. main_loop time n rest (axes ! 0))"

definition main :: "(string \<times> snapshot) list \<Rightarrow> bool \<Rightarrow> py_error + axes_obj" where
  "main pickles time =
     main_loop time (length pickles) pickles (subplots (main_n_plots (map snd pickles)))"

section \<open>The curves as the specification describes them\<close>

text \<open>
  What one axes object holds, and what a call of \<^verbatim>\<open>plot_learning\<close> added to the
  \<open>i\<close>-th axes object of the list it worked on.
\<close>

fun panel :: "axes_obj \<Rightarrow> draw_cmd list" where
  "panel (Axes p) = p"
| "panel (NdArray _) = []"

definition added :: "axes_obj list \<Rightarrow> axes_obj list \<Rightarrow> nat \<Rightarrow> draw_cmd list" where
  "added before after i = drop (length (panel (before ! i))) (panel (after ! i))"

text \<open>The list \<open>b\<close> is the list \<open>a\<close> with the commands \<open>cs\<close> appended to its \<open>i\<close>-th element,
  an axes object.\<close>

definition appended :: "nat \<Rightarrow> draw_cmd list \<Rightarrow> axes_obj list \<Rightarrow> axes_obj list \<Rightarrow> bool" where
  "appended i cs a b =
     (i < length a \<and> a ! i = Axes (panel (a ! i)) \<and> b = a[i := Axes (panel (a ! i) @ cs)])"

text \<open>Section 4.2, step 1 of the specification: the shared x-axis, with the fallback to
  the iteration axis when there are no timestamps.\<close>

definition x_axis :: "snapshot \<Rightarrow> bool \<Rightarrow> int list \<Rightarrow> real list" where
  "x_axis ssvm time its =
     (case timestamps ssvm of
        Some ts \<Rightarrow> if time then time_axis ts else map real_of_int its
      | None \<Rightarrow> map real_of_int its)"

definition x_label :: "bool \<Rightarrow> string" where
  "x_label time = (if time then ''training time (min)'' else ''Passes through training data'')"

text \<open>The elements of \<open>xs\<close> at the positions where the mask holds, in order.\<close>

definition restrict_by_mask :: "bool list \<Rightarrow> 'a list \<Rightarrow> 'a list" where
  "restrict_by_mask msk xs = map (\<lambda>i. xs ! i) (filter (\<lambda>i. msk ! i) [0..<length msk])"

text \<open>Every \<open>n\<close>-th element of \<open>xs\<close>, starting with the first.\<close>

definition subsample :: "nat \<Rightarrow> 'a list \<Rightarrow> 'a list" where
  "subsample n xs = map (\<lambda>i. xs ! (i * n)) [0..<(length xs + n - 1) div n]"

text \<open>Section 4.2, step 2: the commands of the objective panel.\<close>

definition dual_cmds :: "snapshot \<Rightarrow> real list \<Rightarrow> string \<Rightarrow> draw_cmd list" where
  "dual_cmds ssvm x pfx =
     (case dual_objective_curve ssvm of
        None \<Rightarrow> []
      | Some d \<Rightarrow> [Plot x d (Some ''--'') (Some (pfx @ ''dual objective'')), SetYScale ''log''])"

definition primal_cmds :: "snapshot \<Rightarrow> real list \<Rightarrow> string \<Rightarrow> draw_cmd list" where
  "primal_cmds ssvm x pfx =
     (case primal_objective_curve ssvm of
        None \<Rightarrow> []
      | Some p \<Rightarrow>
          [Plot x p None
             (Some (pfx @ (if get_inference_run ssvm = None then ''primal objective''
                           else ''cached primal objective'')))])"

definition overlay_cmd :: "bool list \<Rightarrow> real list \<Rightarrow> real list \<Rightarrow> real list \<Rightarrow> string \<Rightarrow> draw_cmd" where
  "overlay_cmd msk0 d p x pfx =
     Plot (restrict_by_mask (take (length d) msk0) x) (restrict_by_mask (take (length d) msk0) p)
       (Some ''o'') (Some (pfx @ ''primal''))"

definition overlay_cmds :: "snapshot \<Rightarrow> real list \<Rightarrow> string \<Rightarrow> draw_cmd list" where
  "overlay_cmds ssvm x pfx =
     (case get_inference_run ssvm of
        None \<Rightarrow> []
      | Some msk0 \<Rightarrow>
          (case dual_objective_curve ssvm of
             None \<Rightarrow> []
           | Some d \<Rightarrow>
               (case primal_objective_curve ssvm of
                  None \<Rightarrow> []
                | Some p \<Rightarrow> [overlay_cmd msk0 d p x pfx])))"

definition objective_cmds :: "snapshot \<Rightarrow> bool \<Rightarrow> real list \<Rightarrow> string \<Rightarrow> draw_cmd list" where
  "objective_cmds ssvm time x pfx =
     [SetXLabel (x_label time), SetTitle ''Objective''] @ dual_cmds ssvm x pfx
       @ primal_cmds ssvm x pfx @ overlay_cmds ssvm x pfx @ [Legend ''best'']"

definition is_marker :: "draw_cmd \<Rightarrow> bool" where
  "is_marker c = (case c of Plot _ _ fmt _ \<Rightarrow> fmt = Some ''o'' | _ \<Rightarrow> False)"

text \<open>Section 4.2, step 3: the x-values of the error panel for a positive stride.\<close>

definition error_x :: "nat \<Rightarrow> real list \<Rightarrow> real list \<Rightarrow> real list" where
  "error_x k x loss =
     (if length (subsample k x) = length loss then subsample k x else index_axis loss)"

text \<open>The x-values that lines 123-126 plot the loss curve against.\<close>

definition loss_x :: "snapshot \<Rightarrow> real list \<Rightarrow> real list \<Rightarrow> real list" where
  "loss_x ssvm inds loss =
     (case err_bind (getattr (show_loss_every ssvm)) (\<lambda>k. slice_step k inds) of
        Inr xs \<Rightarrow> if length xs = length loss then xs else index_axis loss
      | Inl _ \<Rightarrow> index_axis loss)"

definition error_cmds :: "bool \<Rightarrow> real list \<Rightarrow> real list \<Rightarrow> draw_cmd list" where
  "error_cmds time x loss =
     [SetXLabel (x_label time), Plot x loss None None, SetTitle ''Training Error'',
      SetYScale ''log'']"

section \<open>Example learners\<close>

definition plain_ssvm :: snapshot where
  "plain_ssvm =
     Snapshot None (Some [10, 8, 6]) (Some [20, 15, 11]) None None None None None NumpyArray"

definition scenario_ssvm :: snapshot where
  "scenario_ssvm =
     Snapshot None (Some [10, 8, 6]) (Some [20, 15, 11]) None None
       (Some [False, True, False]) None None NumpyArray"

definition uncached_ssvm :: snapshot where
  "uncached_ssvm =
     Snapshot None (Some [10, 8, 6]) (Some [20, 15, 11]) None None
       (Some [False, False, False]) None None NumpyArray"

definition nodual_ssvm :: snapshot where
  "nodual_ssvm =
     Snapshot None None (Some [20, 15, 11]) None None (Some [False, True, False]) None None
       NumpyArray"

definition noprimal_ssvm :: snapshot where
  "noprimal_ssvm =
     Snapshot None (Some [10, 8, 6]) None None None (Some [False, True, False]) None None
       NumpyArray"

definition listed_ssvm :: snapshot where
  "listed_ssvm =
     Snapshot (Some [0, 1, 2]) (Some [10, 8, 6]) (Some [20, 15, 11]) None None
       (Some [False, True, False]) None None PyList"

definition long_flags_ssvm :: snapshot where
  "long_flags_ssvm =
     Snapshot None (Some [10, 8, 6]) (Some [20, 15, 11]) None None
       (Some [False, True, False, True]) None None NumpyArray"

definition timed_ssvm :: snapshot where
  "timed_ssvm =
     Snapshot None (Some [10, 8, 6]) (Some [20, 15, 11]) None (Some [0, 10, 70, 130])
       None None None NumpyArray"

definition stride_ssvm :: snapshot where
  "stride_ssvm =
     Snapshot (Some [0, 1, 2, 3, 4, 5, 6, 7]) None None (Some [5, 4, 3, 2, 1]) None None
       (Some 2) None NumpyArray"

definition unstrided_ssvm :: snapshot where
  "unstrided_ssvm =
     Snapshot (Some [5, 6, 7]) None None (Some [3, 2, 1]) None None None None NumpyArray"

definition resumed_ssvm :: snapshot where
  "resumed_ssvm =
     Snapshot (Some [5, 6, 7]) (Some [10, 8, 6]) None None None None None None NumpyArray"

definition primal_only_ssvm :: snapshot where
  "primal_only_ssvm =
     Snapshot None None (Some [20, 15, 11]) None None None None None NumpyArray"

definition wrapped_ssvm :: snapshot where
  "wrapped_ssvm =
     Snapshot None None None None None None None
       (Some (Snapshot None (Some [3, 2]) None (Some [1, 1]) None None (Some 1) None
          NumpyArray))
       NumpyArray"

section \<open>Facts about the primitives\<close>

lemma err_bind_Inl [simp]: "err_bind (Inl e) f = Inl e"
  by (simp add: err_bind_def)

lemma err_bind_Inr [simp]: "err_bind (Inr x) f = f x"
  by (simp add: err_bind_def)

lemma err_bind_eq_Inr: "(err_bind m f = Inr y) = (\<exists>x. m = Inr x \<and> f x = Inr y)"
  by (cases m) auto

lemma getattr_simps [simp]: "getattr None = Inl AttributeError" "getattr (Some v) = Inr v"
  by (simp_all add: getattr_def)

lemma get_iterations_empty_dual:
  "iterations ssvm = None \<Longrightarrow> dual_objective_curve ssvm = Some [] \<Longrightarrow>
   get_iterations ssvm = Inl IndexError"
  by (simp add: get_iterations_def iteration_axis_def report_objective_def hasattr_def py_last_def)

section \<open>Appending to one axes object\<close>

text \<open>
  \<open>appended i cs a b\<close>: the \<open>i\<close>-th element of the list \<open>a\<close> is an axes object, and \<open>b\<close> is
  \<open>a\<close> with the commands \<open>cs\<close> appended to that object. Every call on the axes list either
  fails or appends one command.
\<close>

lemma appended_nth: "appended i cs a b \<Longrightarrow> b ! i = Axes (panel (a ! i) @ cs)"
  by (auto simp: appended_def)

lemma appended_length: "appended i cs a b \<Longrightarrow> length b = length a"
  by (auto simp: appended_def)

lemma appended_other: "appended i cs a b \<Longrightarrow> j \<noteq> i \<Longrightarrow> b ! j = a ! j"
  by (auto simp: appended_def)

lemma appended_trans:
  "appended i cs a b \<Longrightarrow> appended i ds b c \<Longrightarrow> appended i (cs @ ds) a c"
  by (auto simp: appended_def)

lemma appended_self: "appended i cs a b \<Longrightarrow> appended i [] b b"
  by (auto simp: appended_def)

lemma ax_call_appended: "(ax_call i c a = Inr b) = appended i [c] a b"
  by (auto simp: ax_call_def appended_def split: axes_obj.splits)

lemma ax_plot_appended:
  "(ax_plot i x y f l a = Inr b) = (length x = length y \<and> appended i [Plot x y f l] a b)"
  by (auto simp: ax_plot_def appended_def split: axes_obj.splits)

section \<open>What each step of a completed call appends\<close>

lemma select_x_axis_Inr:
  assumes "select_x_axis ssvm time its a = Inr (inds, b)"
  shows "appended 0 [SetXLabel (x_label time)] a b \<and> inds = x_axis ssvm time its
    \<and> (time \<longrightarrow> timestamps ssvm \<noteq> None)"
  using assms
  by (cases "timestamps ssvm")
    (auto simp: select_x_axis_def x_label_def x_axis_def err_bind_eq_Inr ax_call_appended
      split: if_splits)

lemma plot_dual_Inr:
  assumes "plot_dual ssvm inds pfx a = Inr b" "appended 0 [] a a"
  shows "appended 0 (dual_cmds ssvm inds pfx) a b"
  using assms
  by (cases "dual_objective_curve ssvm")
    (auto simp: plot_dual_def dual_cmds_def err_bind_eq_Inr ax_call_appended ax_plot_appended
      dest: appended_trans)

lemma primal_label_eq:
  "primal_label pfx r = pfx @ (if r = None then ''primal objective'' else ''cached primal objective'')"
  by (simp add: primal_label_def)

lemma plot_primal_Inr:
  assumes "plot_primal ssvm inds (get_inference_run ssvm) pfx a = Inr b" "appended 0 [] a a"
  shows "appended 0 (primal_cmds ssvm inds pfx) a b"
  using assms
  by (cases "primal_objective_curve ssvm")
    (auto simp: plot_primal_def primal_cmds_def ax_plot_appended primal_label_eq)

lemma restrict_by_mask_Nil [simp]: "restrict_by_mask [] xs = []"
  by (simp add: restrict_by_mask_def)

lemma restrict_by_mask_Cons:
  "restrict_by_mask (b # msk) (x # xs) = (if b then x # restrict_by_mask msk xs else restrict_by_mask msk xs)"
proof -
  have "[0..<Suc (length msk)] = 0 # map Suc [0..<length msk]"
    by (simp add: upt_conv_Cons map_Suc_upt del: upt_Suc)
  then show ?thesis
    by (simp add: restrict_by_mask_def filter_map comp_def del: upt_Suc)
qed

lemma bool_index_restrict:
  "length msk = length xs \<Longrightarrow> bool_index xs msk = Inr (restrict_by_mask msk xs)"
proof (induction msk xs rule: list_induct2)
  case Nil
  then show ?case by (simp add: bool_index_def)
next
  case (Cons b msk x xs)
  then show ?case by (auto simp: bool_index_def restrict_by_mask_Cons)
qed

lemma bool_index_Inr:
  "(bool_index xs msk = Inr ys) = (length msk = length xs \<and> ys = restrict_by_mask msk xs)"
  using bool_index_restrict [of msk xs] by (auto simp: bool_index_def)

lemma truncate_mask_Inr:
  "(truncate_mask ssvm msk0 = Inr msk) =
     (\<exists>d. dual_objective_curve ssvm = Some d \<and> msk = take (length d) msk0)"
  by (cases "dual_objective_curve ssvm") (auto simp: truncate_mask_def)

lemma seq_bool_index_Inr:
  "(seq_bool_index kind xs msk = Inr ys) =
     (kind = NumpyArray \<and> length msk = length xs \<and> ys = restrict_by_mask msk xs)"
  by (cases kind) (auto simp: seq_bool_index_def bool_index_Inr)

lemma plot_inference_Inr:
  assumes "plot_inference ssvm kind inds (get_inference_run ssvm) pfx a = Inr b"
    "appended 0 [] a a"
  shows "appended 0 (overlay_cmds ssvm inds pfx) a b
    \<and> (\<forall>msk0. get_inference_run ssvm = Some msk0 \<longrightarrow>
         (\<exists>d p. dual_objective_curve ssvm = Some d \<and> primal_objective_curve ssvm = Some p
            \<and> kind = NumpyArray
            \<and> length (take (length d) msk0) = length inds
            \<and> length (take (length d) msk0) = length p))"
proof (cases "get_inference_run ssvm")
  case None
  with assms show ?thesis
    by (simp add: plot_inference_def overlay_cmds_def)
next
  case (Some msk0)
  with assms(1) obtain d p where dp: "dual_objective_curve ssvm = Some d"
      "primal_objective_curve ssvm = Some p"
    and kind: "kind = NumpyArray"
    and len: "length (take (length d) msk0) = length inds"
      "length (take (length d) msk0) = length p"
    and run: "ax_plot 0 (restrict_by_mask (take (length d) msk0) inds)
       (restrict_by_mask (take (length d) msk0) p) (Some ''o'') (Some (pfx @ ''primal'')) a = Inr b"
    by (cases "primal_objective_curve ssvm")
      (auto simp: plot_inference_def err_bind_eq_Inr truncate_mask_Inr bool_index_Inr
        seq_bool_index_Inr)
  then show ?thesis
    using Some by (simp add: overlay_cmds_def overlay_cmd_def ax_plot_appended)
qed

lemma index_axis_length [simp]: "length (index_axis ys) = length ys"
  by (simp add: index_axis_def)

lemma err_bind_assoc: "err_bind (err_bind m f) g = err_bind m (\<lambda>x. err_bind (f x) g)"
  by (cases m) auto

lemma try_except:
  "(case err_bind S F of Inl e \<Rightarrow> G | Inr x \<Rightarrow> Inr x) =
   (case S of Inl e \<Rightarrow> G | Inr xs \<Rightarrow> (case F xs of Inl e \<Rightarrow> G | Inr x \<Rightarrow> Inr x))"
  by (cases S) auto

lemma ax_plot_retry:
  "(case ax_plot i xs loss f l a of
      Inl e \<Rightarrow> ax_plot i (index_axis loss) loss f l a
    | Inr x \<Rightarrow> Inr x) =
   ax_plot i (if length xs = length loss then xs else index_axis loss) loss f l a"
  by (cases "a ! i") (auto simp: ax_plot_def)

lemma plot_loss_eq:
  "plot_loss ssvm inds loss a = ax_plot 1 (loss_x ssvm inds loss) loss None None a"
  unfolding plot_loss_def loss_x_def err_bind_assoc [symmetric] try_except ax_plot_retry
  by (simp split: sum.splits)

lemma plot_loss_Inr:
  "(plot_loss ssvm inds loss a = Inr b) = appended 1 [Plot (loss_x ssvm inds loss) loss None None] a b"
proof -
  have "length (loss_x ssvm inds loss) = length loss"
    by (simp add: loss_x_def split: sum.splits)
  then show ?thesis
    by (simp add: plot_loss_eq ax_plot_appended)
qed

lemma error_panel_Inr:
  assumes "error_panel ssvm time inds a = Inr b"
  shows "case loss_curve ssvm of
           None \<Rightarrow> b = a
         | Some loss \<Rightarrow> appended 1 (error_cmds time (loss_x ssvm inds loss) loss) a b"
proof (cases "loss_curve ssvm")
  case None
  with assms show ?thesis by (simp add: error_panel_def n_plots_def hasattr_def)
next
  case (Some loss)
  with assms obtain a1 a2 a3 where
    "appended 1 [SetXLabel (x_label time)] a a1"
    "appended 1 [Plot (loss_x ssvm inds loss) loss None None] a1 a2"
    "appended 1 [SetTitle ''Training Error''] a2 a3"
    "appended 1 [SetYScale ''log''] a3 b"
    by (auto simp: error_panel_def n_plots_def hasattr_def err_bind_eq_Inr ax_call_appended
        plot_loss_Inr x_label_def)
  then have "appended 1 ([SetXLabel (x_label time)] @ [Plot (loss_x ssvm inds loss) loss None None]
      @ [SetTitle ''Training Error''] @ [SetYScale ''log'']) a b"
    by (blast intro: appended_trans)
  with Some show ?thesis by (simp add: error_cmds_def)
qed


lemma plot_primal_fits:
  assumes "primal_objective_curve ssvm = Some p" "length inds = length p"
    "0 < length a" "a ! 0 = Axes q"
  shows "plot_primal ssvm inds r pfx a =
    Inr (a[0 := Axes (q @ [Plot inds p None (Some (primal_label pfx r))])])"
  using assms by (simp add: plot_primal_def ax_plot_def)

section \<open>A completed call of \<^verbatim>\<open>plot_learning\<close>\<close>

text \<open>
  When \<^verbatim>\<open>plot_learning\<close> returns, the iteration axis was found, timestamps were there if
  wall-clock time was asked for, a present mask fitted the x-axis and the primal curve,
  and the axes list is the one it started from with the commands of the objective panel
  appended to the first axes object and, for a learner with a loss curve, those of the
  error panel appended to the second.
\<close>

lemma plot_learning_Inr:
  assumes "plot_learning ssvm0 time axes0 pfx = Inr axes'"
  shows "\<exists>its a6. get_iterations (unwrap ssvm0) = Inr its
     \<and> (time \<longrightarrow> timestamps (unwrap ssvm0) \<noteq> None)
     \<and> (\<forall>msk0. get_inference_run (unwrap ssvm0) = Some msk0 \<longrightarrow>
         (\<exists>d p. dual_objective_curve (unwrap ssvm0) = Some d
            \<and> primal_objective_curve (unwrap ssvm0) = Some p
            \<and> inds_kind (unwrap ssvm0) time = NumpyArray
            \<and> length (take (length d) msk0) = length (x_axis (unwrap ssvm0) time its)
            \<and> length (take (length d) msk0) = length p))
     \<and> appended 0 (objective_cmds (unwrap ssvm0) time (x_axis (unwrap ssvm0) time its) pfx)
          (normalise_axes axes0 (n_plots (unwrap ssvm0))) a6
     \<and> (case loss_curve (unwrap ssvm0) of
           None \<Rightarrow> axes' = a6
         | Some loss \<Rightarrow>
             appended 1 (error_cmds time
               (loss_x (unwrap ssvm0) (x_axis (unwrap ssvm0) time its) loss) loss) a6 axes')"
proof -
  define ssvm where "ssvm = unwrap ssvm0"
  define ax where "ax = normalise_axes axes0 (n_plots ssvm)"
  from assms obtain its n inds a1 a2 a3 a4 a5 a6 where
    its: "get_iterations ssvm = Inr its" and
    "step_count its = Inr n" and
    s1: "select_x_axis ssvm time its ax = Inr (inds, a1)" and
    s2: "ax_call 0 (SetTitle ''Objective'') a1 = Inr a2" and
    s3: "plot_dual ssvm inds pfx a2 = Inr a3" and
    s4: "plot_primal ssvm inds (get_inference_run ssvm) pfx a3 = Inr a4" and
    s5: "plot_inference ssvm (inds_kind ssvm time) inds (get_inference_run ssvm) pfx a4 = Inr a5" and
    s6: "ax_call 0 (Legend ''best'') a5 = Inr a6" and
    s7: "error_panel ssvm time inds a6 = Inr axes'"
    unfolding plot_learning_def Let_def ssvm_def [symmetric] ax_def [symmetric]
    by (auto simp: err_bind_eq_Inr)
  from select_x_axis_Inr [OF s1] have
    x1: "appended 0 [SetXLabel (x_label time)] ax a1" and inds: "inds = x_axis ssvm time its"
    and ts: "time \<longrightarrow> timestamps ssvm \<noteq> None" by simp_all
  from s2 have x2: "appended 0 [SetTitle ''Objective''] a1 a2" by (simp add: ax_call_appended)
  from plot_dual_Inr [OF s3 appended_self [OF x2]]
  have x3: "appended 0 (dual_cmds ssvm inds pfx) a2 a3" .
  have a3: "appended 0 [] a3 a3"
    using x3 by (rule appended_self)
  from plot_primal_Inr [OF s4 a3]
  have x4: "appended 0 (primal_cmds ssvm inds pfx) a3 a4" .
  from plot_inference_Inr [OF s5 appended_self [OF x4]]
  have x5: "appended 0 (overlay_cmds ssvm inds pfx) a4 a5"
    and pres: "\<forall>msk0. get_inference_run ssvm = Some msk0 \<longrightarrow>
         (\<exists>d p. dual_objective_curve ssvm = Some d \<and> primal_objective_curve ssvm = Some p
            \<and> inds_kind ssvm time = NumpyArray
            \<and> length (take (length d) msk0) = length inds
            \<and> length (take (length d) msk0) = length p)" by simp_all
  from s6 have x6: "appended 0 [Legend ''best''] a5 a6" by (simp add: ax_call_appended)
  have "appended 0 ([SetXLabel (x_label time)] @ [SetTitle ''Objective''] @ dual_cmds ssvm inds pfx
      @ primal_cmds ssvm inds pfx @ overlay_cmds ssvm inds pfx @ [Legend ''best'']) ax a6"
    using x1 x2 x3 x4 x5 x6 by (blast intro: appended_trans)
  then have obj: "appended 0 (objective_cmds ssvm time inds pfx) ax a6"
    by (simp add: objective_cmds_def)
  from error_panel_Inr [OF s7] its ts pres obj show ?thesis
    unfolding ssvm_def [symmetric] ax_def [symmetric] inds by blast
qed

lemma plot_learning_added:
  assumes "plot_learning ssvm0 time axes0 pfx = Inr axes'"
  shows "\<exists>its. get_iterations (unwrap ssvm0) = Inr its
     \<and> (time \<longrightarrow> timestamps (unwrap ssvm0) \<noteq> None)
     \<and> (\<forall>msk0. get_inference_run (unwrap ssvm0) = Some msk0 \<longrightarrow>
         (\<exists>d p. dual_objective_curve (unwrap ssvm0) = Some d
            \<and> primal_objective_curve (unwrap ssvm0) = Some p
            \<and> inds_kind (unwrap ssvm0) time = NumpyArray
            \<and> length (take (length d) msk0) = length (x_axis (unwrap ssvm0) time its)
            \<and> length (take (length d) msk0) = length p))
     \<and> added (normalise_axes axes0 (n_plots (unwrap ssvm0))) axes' 0
          = objective_cmds (unwrap ssvm0) time (x_axis (unwrap ssvm0) time its) pfx
     \<and> (\<forall>loss. loss_curve (unwrap ssvm0) = Some loss \<longrightarrow>
          added (normalise_axes axes0 (n_plots (unwrap ssvm0))) axes' 1
            = error_cmds time (loss_x (unwrap ssvm0) (x_axis (unwrap ssvm0) time its) loss) loss)"
proof -
  from plot_learning_Inr [OF assms] obtain its a6 where
    its: "get_iterations (unwrap ssvm0) = Inr its" and
    ts: "time \<longrightarrow> timestamps (unwrap ssvm0) \<noteq> None" and
    pres: "\<forall>msk0. get_inference_run (unwrap ssvm0) = Some msk0 \<longrightarrow>
         (\<exists>d p. dual_objective_curve (unwrap ssvm0) = Some d
            \<and> primal_objective_curve (unwrap ssvm0) = Some p
            \<and> inds_kind (unwrap ssvm0) time = NumpyArray
            \<and> length (take (length d) msk0) = length (x_axis (unwrap ssvm0) time its)
            \<and> length (take (length d) msk0) = length p)" and
    obj: "appended 0 (objective_cmds (unwrap ssvm0) time (x_axis (unwrap ssvm0) time its) pfx)
          (normalise_axes axes0 (n_plots (unwrap ssvm0))) a6" and
    err: "case loss_curve (unwrap ssvm0) of
           None \<Rightarrow> axes' = a6
         | Some loss \<Rightarrow>
             appended 1 (error_cmds time
               (loss_x (unwrap ssvm0) (x_axis (unwrap ssvm0) time its) loss) loss) a6 axes'"
    by blast
  let ?ax = "normalise_axes axes0 (n_plots (unwrap ssvm0))"
  have a0: "axes' ! 0 = a6 ! 0"
    using err by (auto simp: appended_def split: option.splits)
  have "added ?ax axes' 0 = objective_cmds (unwrap ssvm0) time (x_axis (unwrap ssvm0) time its) pfx"
    using obj by (simp add: added_def a0 appended_nth)
  moreover have "added ?ax axes' 1
            = error_cmds time (loss_x (unwrap ssvm0) (x_axis (unwrap ssvm0) time its) loss) loss"
    if "loss_curve (unwrap ssvm0) = Some loss" for loss
  proof -
    from err that have e: "appended 1 (error_cmds time
               (loss_x (unwrap ssvm0) (x_axis (unwrap ssvm0) time its) loss) loss) a6 axes'"
      by simp
    have "a6 ! 1 = ?ax ! 1" using obj by (simp add: appended_other)
    then show ?thesis using appended_nth [OF e] by (simp add: added_def)
  qed
  ultimately show ?thesis using its ts pres by blast
qed

lemma wallclock_needs_timestamps:
  assumes "timestamps (unwrap ssvm0) = None"
  shows "\<exists>e. plot_learning ssvm0 True axes0 pfx = Inl e"
proof -
  have "plot_learning ssvm0 True axes0 pfx =
      err_bind (get_iterations (unwrap ssvm0)) (\<lambda>its.
      err_bind (step_count its) (\<lambda>_. Inl AttributeError))"
    using assms by (simp add: plot_learning_def Let_def select_x_axis_def)
  then show ?thesis
    by (auto simp: err_bind_def split: sum.splits)
qed

section \<open>Slicing with a positive step\<close>

text \<open>
  The slice \<^verbatim>\<open>xs[::n]\<close> for a positive \<open>n\<close> holds the elements of \<open>xs\<close> at the positions
  \<open>0, n, 2n, ...\<close>.
\<close>

lemma subsample_count:
  assumes "0 < n"
  shows "(length (x # xs) + n - 1) div n = Suc ((length (drop (n - 1) xs) + n - 1) div n)"
proof (cases "n - 1 \<le> length xs")
  case True
  then have e1: "length (drop (n - 1) xs) + n - 1 = length xs" using assms by simp
  have e2: "length (x # xs) + n - 1 = length xs + n" using assms by simp
  show ?thesis unfolding e1 e2 using assms by simp
next
  case False
  then have e1: "length (drop (n - 1) xs) + n - 1 = n - 1" by simp
  have e2: "length (x # xs) + n - 1 = length xs + n" using assms by simp
  from False have "length xs < n" by simp
  then show ?thesis unfolding e1 e2 using assms by simp
qed

lemma subsample_Cons:
  assumes "0 < n"
  shows "subsample n (x # xs) = x # subsample n (drop (n - 1) xs)"
proof -
  let ?m = "(length (drop (n - 1) xs) + n - 1) div n"
  have up: "[0..<Suc ?m] = 0 # map Suc [0..<?m]"
    by (simp add: upt_conv_Cons map_Suc_upt del: upt_Suc)
  have le: "n - 1 \<le> length xs" if "j < ?m" for j
  proof (rule ccontr)
    assume "\<not> n - 1 \<le> length xs"
    then have "length (drop (n - 1) xs) + n - 1 = n - 1" by simp
    then have "?m = 0" using assms by simp
    with that show False by simp
  qed
  have "(x # xs) ! (Suc j * n) = drop (n - 1) xs ! (j * n)" if "j < ?m" for j
  proof -
    have "Suc j * n = Suc (n - 1 + j * n)" using assms by simp
    then show ?thesis using le [OF that] by (simp add: add.commute)
  qed
  then have "map (\<lambda>i. (x # xs) ! (i * n)) (map Suc [0..<?m])
      = map (\<lambda>i. drop (n - 1) xs ! (i * n)) [0..<?m]"
    by simp
  then show ?thesis
    unfolding subsample_def subsample_count [OF assms] up by simp
qed

lemma every_nth_subsample: "0 < n \<Longrightarrow> every_nth n xs = subsample n xs"
proof (induction n xs rule: every_nth.induct)
  case (1 n)
  then show ?case by (simp add: subsample_def)
next
  case (2 n x xs)
  then show ?case by (simp add: subsample_Cons)
qed

lemma loss_x_positive:
  "show_loss_every ssvm = Some k \<Longrightarrow> 0 < k \<Longrightarrow> loss_x ssvm inds loss = error_x (nat k) inds loss"
  by (simp add: loss_x_def error_x_def slice_step_def every_nth_subsample)

lemma loss_x_absent:
  "show_loss_every ssvm = None \<or> show_loss_every ssvm = Some 0 \<Longrightarrow>
   loss_x ssvm inds loss = index_axis loss"
  by (auto simp: loss_x_def slice_step_def)

lemma index_axis_nth: "i < length ys \<Longrightarrow> index_axis ys ! i = real i"
  by (simp add: index_axis_def)

lemma error_x_example: "error_x 2 [0, 1, 2, 3, 4, 5, 6, 7] [5, 4, 3, 2, 1] = [0, 1, 2, 3, 4]"
  by (simp add: error_x_def subsample_def index_axis_def upt_conv_Cons)

section \<open>The word "cached" in a label\<close>

lemma cached_not_in_label: "\<not> sublist ''cached'' ''primal objective''"
  by code_simp

lemma p_not_in_cached: "CHR ''p'' \<notin> set ''cached''"
  by simp

lemma cached_not_across:
  assumes "\<not> sublist ''cached'' pfx"
  shows "\<not> sublist ''cached'' (pfx @ ''primal objective'')"
proof
  assume "sublist ''cached'' (pfx @ ''primal objective'')"
  then consider "sublist ''cached'' pfx" | "sublist ''cached'' ''primal objective''"
    | xs1 xs2 where "''cached'' = xs1 @ xs2" "suffix xs1 pfx" "prefix xs2 ''primal objective''"
    unfolding sublist_append by blast
  then show False
  proof cases
    case 1
    with assms show False by simp
  next
    case 2
    with cached_not_in_label show False by simp
  next
    case 3
    show False
    proof (cases xs2)
      case Nil
      with 3 have "suffix ''cached'' pfx" by simp
      then have "sublist ''cached'' pfx" by (rule suffix_imp_sublist)
      with assms show False by simp
    next
      case (Cons c t)
      with 3(3) have "c = CHR ''p''" by simp
      with Cons have "CHR ''p'' \<in> set (xs1 @ xs2)" by simp
      then have "CHR ''p'' \<in> set ''cached''" unfolding 3(1) [symmetric] .
      with p_not_in_cached show False by simp
    qed
  qed
qed

section \<open>Evaluating the model on the example learners\<close>

lemmas model_defs =
  plot_learning_def unwrap_def get_iterations_def iteration_axis_def report_objective_def
  hasattr_def getattr_def
  py_last_def arange_def step_count_def np_max_def get_inference_run_def np_any_def n_plots_def
  normalise_axes_def subplots_def select_x_axis_def time_axis_def ax_call_def ax_plot_def
  plot_dual_def plot_primal_def primal_label_def plot_inference_def truncate_mask_def
  bool_index_def seq_bool_index_def inds_kind_def error_panel_def plot_loss_def slice_step_def index_axis_def
  main_def main_n_plots_def legend_prefix_def

lemmas example_defs =
  plain_ssvm_def scenario_ssvm_def uncached_ssvm_def nodual_ssvm_def timed_ssvm_def
  stride_ssvm_def resumed_ssvm_def primal_only_ssvm_def wrapped_ssvm_def noprimal_ssvm_def
  listed_ssvm_def long_flags_ssvm_def unstrided_ssvm_def

section \<open>The iteration axis\<close>

text \<open>
  Claim C7. The value assigned to the iteration axis is the \<^verbatim>\<open>iterations_\<close> attribute
  itself when that attribute is present. Otherwise it is the sequence \<open>0..len-1\<close> for the
  dual objective curve when that curve is present, and for the primal objective curve
  when the dual one is absent. It is the axis that lines 70-78 hand on whenever they
  complete.
\<close>

theorem C7_iteration_axis:
  "(iterations ssvm = Some its \<longrightarrow> iteration_axis ssvm = Inr its)
   \<and> (iterations ssvm = None \<longrightarrow> dual_objective_curve ssvm = Some d \<longrightarrow>
        (\<exists>ax. iteration_axis ssvm = Inr ax \<and> length ax = length d
           \<and> (\<forall>i<length d. ax ! i = int i)))
   \<and> (iterations ssvm = None \<longrightarrow> dual_objective_curve ssvm = None \<longrightarrow>
        primal_objective_curve ssvm = Some p \<longrightarrow>
        (\<exists>ax. iteration_axis ssvm = Inr ax \<and> length ax = length p
           \<and> (\<forall>i<length p. ax ! i = int i)))
   \<and> (get_iterations ssvm = Inr its' \<longrightarrow> iteration_axis ssvm = Inr its')"
  by (auto simp: get_iterations_def iteration_axis_def hasattr_def arange_def err_bind_eq_Inr)

theorem C7_witness:
  "iterations resumed_ssvm = Some [5, 6, 7] \<and> iteration_axis resumed_ssvm = Inr [5, 6, 7]
   \<and> iterations plain_ssvm = None \<and> dual_objective_curve plain_ssvm = Some [10, 8, 6]
   \<and> iteration_axis plain_ssvm = Inr [0, 1, 2]
   \<and> iterations primal_only_ssvm = None \<and> dual_objective_curve primal_only_ssvm = None
   \<and> primal_objective_curve primal_only_ssvm = Some [20, 15, 11]
   \<and> iteration_axis primal_only_ssvm = Inr [0, 1, 2]
   \<and> get_iterations plain_ssvm = Inr [0, 1, 2]"
proof -
  have a: "iterations resumed_ssvm = Some [5, 6, 7]"
    by (simp add: resumed_ssvm_def)
  have b: "iterations plain_ssvm = None" "dual_objective_curve plain_ssvm = Some [10, 8, 6]"
    by (simp_all add: plain_ssvm_def)
  have c: "iterations primal_only_ssvm = None" "dual_objective_curve primal_only_ssvm = None"
    "primal_objective_curve primal_only_ssvm = Some [20, 15, 11]"
    by (simp_all add: primal_only_ssvm_def)
  have g: "get_iterations plain_ssvm = Inr [0, 1, 2]"
    by (simp add: model_defs plain_ssvm_def upt_conv_Cons)
  have ax: "ax = [0, 1, 2]" if "length ax = 3" "\<forall>i<3. ax ! i = int i" for ax :: "int list"
  proof (rule nth_equalityI)
    show "length ax = length [0, 1, 2 :: int]" using that by simp
    fix i assume "i < length ax"
    with that have "i = 0 \<or> i = 1 \<or> i = 2" "ax ! i = int i" by auto
    then show "ax ! i = [0, 1, 2] ! i" by auto
  qed
  note th = C7_iteration_axis
  from th [of resumed_ssvm "[5, 6, 7]"] a
  have 1: "iteration_axis resumed_ssvm = Inr [5, 6, 7]" by blast
  from th [of plain_ssvm _ "[10, 8, 6]"] b
  obtain ax2 where "iteration_axis plain_ssvm = Inr ax2" "length ax2 = length [10, 8, 6 :: real]"
    "\<forall>i<length [10, 8, 6 :: real]. ax2 ! i = int i" by blast
  then have 2: "iteration_axis plain_ssvm = Inr [0, 1, 2]" using ax [of ax2] by simp
  from th [of primal_only_ssvm _ _ "[20, 15, 11]"] c
  obtain ax3 where "iteration_axis primal_only_ssvm = Inr ax3"
    "length ax3 = length [20, 15, 11 :: real]"
    "\<forall>i<length [20, 15, 11 :: real]. ax3 ! i = int i" by blast
  then have 3: "iteration_axis primal_only_ssvm = Inr [0, 1, 2]" using ax [of ax3] by simp
  from 1 2 3 a b c g show ?thesis by simp
qed

section \<open>The shared x-axis\<close>

text \<open>
  Claim C8. Under wall-clock time, with timestamps present and a usable first axes
  object, the x-axis has one entry less than the timestamps and its \<open>i\<close>-th entry is
  the \<open>(i+1)\<close>-th timestamp divided by 60; the timestamps 0, 10, 70, 130 give
  1/6, 7/6, 13/6.
\<close>

theorem C8_wallclock_axis:
  "(timestamps ssvm = Some ts \<longrightarrow> 0 < length axes \<longrightarrow> axes ! 0 = Axes p \<longrightarrow>
      (\<exists>x axes1. select_x_axis ssvm True its axes = Inr (x, axes1)
         \<and> length x = length ts - 1 \<and> (\<forall>i<length x. x ! i = ts ! (i + 1) / 60)))
   \<and> select_x_axis timed_ssvm True [0, 1, 2] [Axes []] =
        Inr ([1 / 6, 7 / 6, 13 / 6], [Axes [SetXLabel ''training time (min)'']])"
  by (simp add: select_x_axis_def ax_call_def time_axis_def timed_ssvm_def)

theorem C8_witness:
  "timestamps timed_ssvm = Some [0, 10, 70, 130]
   \<and> (\<exists>x axes1. select_x_axis timed_ssvm True [0, 1, 2] [Axes []] = Inr (x, axes1)
        \<and> length x = 3 \<and> x ! 0 = 1 / 6 \<and> x ! 1 = 7 / 6 \<and> x ! 2 = 13 / 6)"
proof -
  have a: "timestamps timed_ssvm = Some [0, 10, 70, 130]"
    by (simp add: timed_ssvm_def)
  from C8_wallclock_axis [of timed_ssvm "[0, 10, 70, 130]" "[Axes []]" "[]" "[0, 1, 2]"] a
  obtain x axes1 where s: "select_x_axis timed_ssvm True [0, 1, 2] [Axes []] = Inr (x, axes1)"
    and l: "length x = 3"
    and q: "\<And>i. i < length x \<Longrightarrow> x ! i = [0, 10, 70, 130] ! (i + 1) / 60"
    by auto
  have "x ! 0 = 1 / 6" using q [of 0] l by simp
  moreover have "x ! 1 = 7 / 6" using q [of 1] l by simp
  moreover have "x ! 2 = 13 / 6" using q [of 2] l by simp
  ultimately show ?thesis using a s l by blast
qed

text \<open>
  Claim C1, at a learner with both objective curves and no timestamps. The call with the
  default arguments (wall-clock time, no axes, empty prefix) raises the
  \<^verbatim>\<open>AttributeError\<close> of reading \<^verbatim>\<open>timestamps_\<close> at line 96, where the claim asks
  for the curves over the iteration axis; the call with \<^verbatim>\<open>time=False\<close> draws them.
\<close>

theorem C1_wallclock_without_timestamps_raises:
  "timestamps (unwrap plain_ssvm) = None
   \<and> plot_learning plain_ssvm True AxesNone [] = Inl AttributeError
   \<and> plot_learning plain_ssvm False AxesNone [] =
       Inr [Axes [SetXLabel ''Passes through training data'', SetTitle ''Objective'',
                  Plot [0, 1, 2] [10, 8, 6] (Some ''--'') (Some ''dual objective''),
                  SetYScale ''log'',
                  Plot [0, 1, 2] [20, 15, 11] None (Some ''primal objective''),
                  Legend ''best'']]"
  by (simp add: model_defs example_defs upt_conv_Cons)

section \<open>The inference mask\<close>

text \<open>
  Claim C4. When the cached-constraint flags are present and contain a true value (and
  the dual objective curve, to whose length the mask is cut, is present), the mask of
  line 85 has one entry for each flag, the negation of that flag; the mask cut at line
  112 has as many entries as the shorter of the flags and the dual objective curve, so
  it is no longer than the dual objective curve, and each of its entries is the
  negation of the flag at the same index.
\<close>

theorem C4_inference_mask_truncated:
  assumes "cached_constraint ssvm = Some c" "True \<in> set c" "dual_objective_curve ssvm = Some d"
  shows "\<exists>msk0 msk. get_inference_run ssvm = Some msk0
    \<and> length msk0 = length c \<and> (\<forall>i<length c. msk0 ! i = (\<not> c ! i))
    \<and> truncate_mask ssvm msk0 = Inr msk
    \<and> length msk = min (length c) (length d)
    \<and> length msk \<le> length d \<and> (\<forall>i<length msk. msk ! i = (\<not> c ! i))"
proof -
  from assms(2) have "np_any c"
    by (auto simp: np_any_def list_ex_iff)
  with assms(1) have r: "get_inference_run ssvm = Some (map Not c)"
    by (simp add: get_inference_run_def)
  have t: "truncate_mask ssvm (map Not c) = Inr (take (length d) (map Not c))"
    using assms(3) by (simp add: truncate_mask_def)
  have "length (take (length d) (map Not c)) = min (length c) (length d)"
    "\<forall>i<length (take (length d) (map Not c)). take (length d) (map Not c) ! i = (\<not> c ! i)"
    "length (map Not c) = length c" "\<forall>i<length c. map Not c ! i = (\<not> c ! i)"
    by simp_all
  with r t show ?thesis by fastforce
qed

theorem C4_witness:
  "cached_constraint long_flags_ssvm = Some [False, True, False, True]
   \<and> True \<in> set [False, True, False, True]
   \<and> dual_objective_curve long_flags_ssvm = Some [10, 8, 6]
   \<and> get_inference_run long_flags_ssvm = Some [True, False, True, False]
   \<and> truncate_mask long_flags_ssvm [True, False, True, False] = Inr [True, False, True]"
proof -
  have a: "cached_constraint long_flags_ssvm = Some [False, True, False, True]"
    and b: "True \<in> set [False, True, False, True]"
    and c: "dual_objective_curve long_flags_ssvm = Some [10, 8, 6]"
    by (simp_all add: long_flags_ssvm_def)
  from C4_inference_mask_truncated [OF a b c] obtain msk0 msk where
    r: "get_inference_run long_flags_ssvm = Some msk0" and
    l0: "length msk0 = 4" and
    e0: "\<And>i. i < 4 \<Longrightarrow> msk0 ! i = (\<not> [False, True, False, True] ! i)" and
    t: "truncate_mask long_flags_ssvm msk0 = Inr msk" and
    l: "length msk = 3" and
    e: "\<And>i. i < length msk \<Longrightarrow> msk ! i = (\<not> [False, True, False, True] ! i)"
    by auto
  have m0: "msk0 = [True, False, True, False]"
  proof (rule nth_equalityI)
    show "length msk0 = length [True, False, True, False]" using l0 by simp
    fix i assume "i < length msk0"
    with l0 have i: "i = 0 \<or> i = 1 \<or> i = 2 \<or> i = 3" by auto
    with e0 [of i] show "msk0 ! i = [True, False, True, False] ! i" by auto
  qed
  have m: "msk = [True, False, True]"
  proof (rule nth_equalityI)
    show "length msk = length [True, False, True]" using l by simp
    fix i assume "i < length msk"
    with l have i: "i = 0 \<or> i = 1 \<or> i = 2" by auto
    with e [of i] l show "msk ! i = [True, False, True] ! i" by auto
  qed
  from a b c r t show ?thesis unfolding m0 m by simp
qed

text \<open>
  Claim C5. The inference mask is present exactly when the cached-constraint flags are
  present and contain a true value. When the mask is absent, as it is for flags that are
  all false, a successful call adds no marker command to the objective panel, nor to the
  error panel when there is one.
\<close>

theorem C5_inference_mask_presence:
  "(get_inference_run ssvm \<noteq> None) = (\<exists>c. cached_constraint ssvm = Some c \<and> True \<in> set c)
   \<and> (ssvm = unwrap ssvm0 \<longrightarrow> get_inference_run ssvm = None \<longrightarrow>
        plot_learning ssvm0 time axes0 pfx = Inr axes' \<longrightarrow>
        \<not> list_ex is_marker (added (normalise_axes axes0 (n_plots ssvm)) axes' 0)
        \<and> (loss_curve ssvm \<noteq> None \<longrightarrow>
             \<not> list_ex is_marker (added (normalise_axes axes0 (n_plots ssvm)) axes' 1)))"
proof (intro conjI impI)
  show "(get_inference_run ssvm \<noteq> None) = (\<exists>c. cached_constraint ssvm = Some c \<and> True \<in> set c)"
    by (cases "cached_constraint ssvm") (auto simp: get_inference_run_def np_any_def list_ex_iff)
next
  assume s: "ssvm = unwrap ssvm0" and r: "get_inference_run ssvm = None"
    and p: "plot_learning ssvm0 time axes0 pfx = Inr axes'"
  from plot_learning_added [OF p] obtain its where
    o: "added (normalise_axes axes0 (n_plots ssvm)) axes' 0
          = objective_cmds ssvm time (x_axis ssvm time its) pfx"
    and e: "\<forall>loss. loss_curve ssvm = Some loss \<longrightarrow>
          added (normalise_axes axes0 (n_plots ssvm)) axes' 1
            = error_cmds time (loss_x ssvm (x_axis ssvm time its) loss) loss"
    unfolding s by blast
  show "\<not> list_ex is_marker (added (normalise_axes axes0 (n_plots ssvm)) axes' 0)"
    unfolding o using r
    by (simp add: objective_cmds_def dual_cmds_def primal_cmds_def overlay_cmds_def is_marker_def
        split: option.splits)
  show "\<not> list_ex is_marker (added (normalise_axes axes0 (n_plots ssvm)) axes' 1)"
    if "loss_curve ssvm \<noteq> None"
    using that e by (auto simp: error_cmds_def is_marker_def)
qed

theorem C5_witness:
  "uncached_ssvm = unwrap uncached_ssvm
   \<and> get_inference_run uncached_ssvm = None
   \<and> cached_constraint uncached_ssvm = Some [False, False, False]
   \<and> (\<exists>axes'. plot_learning uncached_ssvm False (AxesList [Axes []]) [] = Inr axes'
        \<and> \<not> list_ex is_marker (added [Axes []] axes' 0))"
proof -
  have s: "uncached_ssvm = unwrap uncached_ssvm"
    by (simp add: uncached_ssvm_def unwrap_def)
  have c: "cached_constraint uncached_ssvm = Some [False, False, False]"
    by (simp add: uncached_ssvm_def)
  note th = C5_inference_mask_presence [of uncached_ssvm uncached_ssvm False "AxesList [Axes []]" "[]"]
  from th c have r: "get_inference_run uncached_ssvm = None"
    by auto
  have n: "normalise_axes (AxesList [Axes []]) (n_plots uncached_ssvm) = [Axes []]"
    by (simp add: normalise_axes_def)
  obtain axes' where p: "plot_learning uncached_ssvm False (AxesList [Axes []]) [] = Inr axes'"
    by (simp add: model_defs example_defs upt_conv_Cons)
  with th s r have "\<not> list_ex is_marker (added [Axes []] axes' 0)"
    unfolding n by blast
  with s r c p show ?thesis by blast
qed

text \<open>
  Claim C10. When the cached-constraint flags are present with a true value and the dual
  objective curve is absent, the mask is present, cutting it to the length of the dual
  objective curve raises \<^verbatim>\<open>AttributeError\<close>, and \<^verbatim>\<open>plot_learning\<close> fails whatever
  its other arguments are.
\<close>

theorem C10_overlay_needs_dual_curve:
  assumes "cached_constraint (unwrap ssvm0) = Some c" "True \<in> set c"
    "dual_objective_curve (unwrap ssvm0) = None"
  shows "get_inference_run (unwrap ssvm0) = Some (map Not c)
    \<and> truncate_mask (unwrap ssvm0) (map Not c) = Inl AttributeError
    \<and> (\<exists>e. plot_learning ssvm0 time axes0 pfx = Inl e)"
proof -
  from assms(2) have "np_any c"
    by (auto simp: np_any_def list_ex_iff)
  with assms(1) have r: "get_inference_run (unwrap ssvm0) = Some (map Not c)"
    by (simp add: get_inference_run_def)
  have t: "truncate_mask (unwrap ssvm0) (map Not c) = Inl AttributeError"
    using assms(3) by (simp add: truncate_mask_def)
  have "plot_learning ssvm0 time axes0 pfx \<noteq> Inr axes'" for axes'
  proof
    assume "plot_learning ssvm0 time axes0 pfx = Inr axes'"
    from plot_learning_Inr [OF this] r assms(3) show False by auto
  qed
  then have "\<exists>e. plot_learning ssvm0 time axes0 pfx = Inl e"
    by (cases "plot_learning ssvm0 time axes0 pfx") auto
  with r t show ?thesis by simp
qed

theorem C10_witness:
  "cached_constraint (unwrap nodual_ssvm) = Some [False, True, False]
   \<and> True \<in> set [False, True, False]
   \<and> dual_objective_curve (unwrap nodual_ssvm) = None
   \<and> plot_learning nodual_ssvm False (AxesList [Axes []]) [] = Inl AttributeError"
proof -
  have a: "cached_constraint (unwrap nodual_ssvm) = Some [False, True, False]"
    and b: "True \<in> set [False, True, False]"
    and c: "dual_objective_curve (unwrap nodual_ssvm) = None"
    by (simp_all add: nodual_ssvm_def unwrap_def)
  have "plot_learning nodual_ssvm False (AxesList [Axes []]) [] = Inl AttributeError"
    using C10_overlay_needs_dual_curve [OF a b c, of False "AxesList [Axes []]" "[]"]
    by (simp add: model_defs example_defs upt_conv_Cons)
  with a b c show ?thesis by simp
qed

section \<open>The objective panel\<close>

text \<open>
  Claim C9, as amended. When the primal objective curve is present, a completed call
  has added the primal curve to the objective panel with the label \<open>prefix + "cached
  primal objective"\<close> when the inference mask is present and \<open>prefix + "primal objective"\<close>
  otherwise, and lines 107-110 add exactly that command to a usable first axes object
  whenever the x-axis is as long as the curve. When the prefix does not itself contain
  "cached", the label contains "cached" exactly when the mask is present.
\<close>

theorem C9_primal_label:
  "(plot_learning ssvm0 time axes0 pfx = Inr axes' \<longrightarrow>
    primal_objective_curve (unwrap ssvm0) = Some p \<longrightarrow>
      (\<exists>its. get_iterations (unwrap ssvm0) = Inr its
         \<and> Plot (x_axis (unwrap ssvm0) time its) p None
              (Some (primal_label pfx (get_inference_run (unwrap ssvm0))))
            \<in> set (added (normalise_axes axes0 (n_plots (unwrap ssvm0))) axes' 0)))
   \<and> (\<forall>ssvm inds a q.
         primal_objective_curve ssvm = Some p \<longrightarrow> length inds = length p \<longrightarrow>
         0 < length a \<longrightarrow> a ! 0 = Axes q \<longrightarrow>
         plot_primal ssvm inds r pfx a =
           Inr (a[0 := Axes (q @ [Plot inds p None (Some (primal_label pfx r))])]))
   \<and> primal_label pfx r =
       pfx @ (if r = None then ''primal objective'' else ''cached primal objective'')
   \<and> (\<not> sublist ''cached'' pfx \<longrightarrow> sublist ''cached'' (primal_label pfx r) = (r \<noteq> None))"
proof (intro conjI impI allI)
  assume q: "plot_learning ssvm0 time axes0 pfx = Inr axes'"
    and p: "primal_objective_curve (unwrap ssvm0) = Some p"
  from plot_learning_added [OF q] obtain its where
    its: "get_iterations (unwrap ssvm0) = Inr its" and
    o: "added (normalise_axes axes0 (n_plots (unwrap ssvm0))) axes' 0
          = objective_cmds (unwrap ssvm0) time (x_axis (unwrap ssvm0) time its) pfx"
    by blast
  have "Plot (x_axis (unwrap ssvm0) time its) p None
              (Some (primal_label pfx (get_inference_run (unwrap ssvm0))))
            \<in> set (added (normalise_axes axes0 (n_plots (unwrap ssvm0))) axes' 0)"
    unfolding o by (simp add: objective_cmds_def primal_cmds_def p primal_label_eq)
  with its show "\<exists>its. get_iterations (unwrap ssvm0) = Inr its
         \<and> Plot (x_axis (unwrap ssvm0) time its) p None
              (Some (primal_label pfx (get_inference_run (unwrap ssvm0))))
            \<in> set (added (normalise_axes axes0 (n_plots (unwrap ssvm0))) axes' 0)"
    by blast
next
  fix ssvm :: snapshot and inds :: "real list" and a :: "axes_obj list" and q :: "draw_cmd list"
  assume "primal_objective_curve ssvm = Some p" "length inds = length p"
    "0 < length a" "a ! 0 = Axes q"
  then show "plot_primal ssvm inds r pfx a =
           Inr (a[0 := Axes (q @ [Plot inds p None (Some (primal_label pfx r))])])"
    by (rule plot_primal_fits)
next
  show "primal_label pfx r =
       pfx @ (if r = None then ''primal objective'' else ''cached primal objective'')"
    by (rule primal_label_eq)
next
  assume n: "\<not> sublist ''cached'' pfx"
  show "sublist ''cached'' (primal_label pfx r) = (r \<noteq> None)"
  proof (cases r)
    case None
    with cached_not_across [OF n] show ?thesis by (simp add: primal_label_eq)
  next
    case (Some m)
    have "sublist ''cached'' (pfx @ ''cached'' @ '' primal objective'')"
      by (rule sublist_appendI)
    with Some show ?thesis by (simp add: primal_label_eq)
  qed
qed

text \<open>
  The claim as stated fails for a prefix that contains "cached": without a mask the
  label of the primal curve is then \<open>"cached primal objective"\<close> all the same.
\<close>

theorem C9_counterexample:
  "get_inference_run (unwrap plain_ssvm) = None
   \<and> primal_objective_curve (unwrap plain_ssvm) = Some [20, 15, 11]
   \<and> plot_learning plain_ssvm False (AxesList [Axes []]) ''cached '' =
       Inr [Axes [SetXLabel ''Passes through training data'', SetTitle ''Objective'',
                  Plot [0, 1, 2] [10, 8, 6] (Some ''--'') (Some ''cached dual objective''),
                  SetYScale ''log'',
                  Plot [0, 1, 2] [20, 15, 11] None (Some ''cached primal objective''),
                  Legend ''best'']]
   \<and> sublist ''cached'' ''cached primal objective''"
proof -
  have "sublist ''cached'' (''cached'' @ '' primal objective'')"
    by (rule sublist_append_rightI)
  then show ?thesis
    by (simp add: model_defs example_defs upt_conv_Cons)
qed

theorem C9_witness:
  "primal_objective_curve (unwrap scenario_ssvm) = Some [20, 15, 11]
   \<and> \<not> sublist ''cached'' ''run ''
   \<and> get_inference_run (unwrap scenario_ssvm) \<noteq> None
   \<and> sublist ''cached'' (primal_label ''run '' (get_inference_run (unwrap scenario_ssvm)))
   \<and> get_inference_run (unwrap plain_ssvm) = None
   \<and> \<not> sublist ''cached'' (primal_label ''run '' (get_inference_run (unwrap plain_ssvm)))
   \<and> (\<exists>axes'. plot_learning scenario_ssvm False (AxesList [Axes []]) ''run '' = Inr axes'
        \<and> Plot [0, 1, 2] [20, 15, 11] None (Some ''run cached primal objective'')
           \<in> set (added [Axes []] axes' 0))
   \<and> plot_primal (unwrap scenario_ssvm) [0, 1, 2] None ''run '' [Axes []] =
       Inr [Axes [Plot [0, 1, 2] [20, 15, 11] None (Some ''run primal objective'')]]"
proof -
  have p: "primal_objective_curve (unwrap scenario_ssvm) = Some [20, 15, 11]"
    by (simp add: scenario_ssvm_def unwrap_def)
  have n: "\<not> sublist ''cached'' ''run ''"
    by code_simp
  have r: "get_inference_run (unwrap scenario_ssvm) = Some [True, False, True]"
    by (simp add: scenario_ssvm_def unwrap_def get_inference_run_def np_any_def)
  have r': "get_inference_run (unwrap plain_ssvm) = None"
    by (simp add: plain_ssvm_def unwrap_def get_inference_run_def)
  have i: "get_iterations (unwrap scenario_ssvm) = Inr [0, 1, 2]"
    by (simp add: model_defs example_defs upt_conv_Cons)
  have x: "x_axis (unwrap scenario_ssvm) False [0, 1, 2] = [0, 1, 2]"
    by (simp add: scenario_ssvm_def unwrap_def x_axis_def)
  have ax: "normalise_axes (AxesList [Axes []]) (n_plots (unwrap scenario_ssvm)) = [Axes []]"
    by (simp add: normalise_axes_def)
  obtain axes' where q: "plot_learning scenario_ssvm False (AxesList [Axes []]) ''run '' = Inr axes'"
    by (simp add: model_defs example_defs upt_conv_Cons)
  note th = C9_primal_label [of scenario_ssvm False "AxesList [Axes []]" "''run ''" axes'
      "[20, 15, 11]"]
  from th [of "get_inference_run (unwrap scenario_ssvm)"] n
  have "sublist ''cached'' (primal_label ''run '' (get_inference_run (unwrap scenario_ssvm)))
      = (get_inference_run (unwrap scenario_ssvm) \<noteq> None)"
    by blast
  with r
  have 1: "sublist ''cached'' (primal_label ''run '' (get_inference_run (unwrap scenario_ssvm)))"
    by simp
  from th [of "get_inference_run (unwrap plain_ssvm)"] n
  have "sublist ''cached'' (primal_label ''run '' (get_inference_run (unwrap plain_ssvm)))
      = (get_inference_run (unwrap plain_ssvm) \<noteq> None)"
    by blast
  with r'
  have 2: "\<not> sublist ''cached'' (primal_label ''run '' (get_inference_run (unwrap plain_ssvm)))"
    by simp
  from th [of None] q p obtain its where "get_iterations (unwrap scenario_ssvm) = Inr its"
    "Plot (x_axis (unwrap scenario_ssvm) False its) [20, 15, 11] None
        (Some (primal_label ''run '' (get_inference_run (unwrap scenario_ssvm))))
      \<in> set (added (normalise_axes (AxesList [Axes []]) (n_plots (unwrap scenario_ssvm))) axes' 0)"
    by blast
  with i have 3: "Plot [0, 1, 2] [20, 15, 11] None (Some ''run cached primal objective'')
           \<in> set (added [Axes []] axes' 0)"
    by (simp add: x ax r primal_label_def)
  from th [of None] have "primal_objective_curve (unwrap scenario_ssvm) = Some [20, 15, 11] \<longrightarrow>
      length [0, 1, 2 :: real] = length [20, 15, 11 :: real] \<longrightarrow>
      0 < length [Axes []] \<longrightarrow> [Axes []] ! 0 = Axes [] \<longrightarrow>
      plot_primal (unwrap scenario_ssvm) [0, 1, 2] None ''run '' [Axes []] =
        Inr ([Axes []][0 := Axes ([] @ [Plot [0, 1, 2] [20, 15, 11] None
          (Some (primal_label ''run '' None))])])"
    by blast
  with p have 4: "plot_primal (unwrap scenario_ssvm) [0, 1, 2] None ''run '' [Axes []] =
       Inr [Axes [Plot [0, 1, 2] [20, 15, 11] None (Some ''run primal objective'')]]"
    by (simp add: primal_label_def)
  from r have r0: "get_inference_run (unwrap scenario_ssvm) \<noteq> None" by simp
  from p n r0 1 r' 2 q 3 4 show ?thesis by blast
qed




section \<open>The error panel\<close>

text \<open>
  Claim C3, as amended. For a learner with a loss curve whose \<^verbatim>\<open>show_loss_every\<close> is
  present and positive, the loss curve is plotted against every
  \<^verbatim>\<open>show_loss_every\<close>-th element of the x-axis of the objective panel when there are as
  many of those as loss values, and against the indices \<open>0..len(loss_curve)-1\<close> otherwise.
  When \<^verbatim>\<open>show_loss_every\<close> is absent (the code has no default stride) or zero, the loss
  curve is plotted against the indices \<open>0..len(loss_curve)-1\<close> whatever the lengths are.
  In each case lines 123-126 return this on every usable second axes object, and every
  completed call of \<^verbatim>\<open>plot_learning\<close> has added it to the error panel. A loss curve of
  5 values with stride 2 and an x-axis of 8 values is plotted against 0, 1, 2, 3, 4.
\<close>

theorem C3_error_panel_x_values:
  assumes "loss_curve (unwrap ssvm0) = Some loss"
  shows "(\<forall>k. show_loss_every (unwrap ssvm0) = Some k \<longrightarrow> 0 < k \<longrightarrow>
      (\<forall>inds a p. 1 < length a \<longrightarrow> a ! 1 = Axes p \<longrightarrow>
            plot_loss (unwrap ssvm0) inds loss a =
              Inr (a[1 := Axes (p @ [Plot (error_x (nat k) inds loss) loss None None])]))
      \<and> (\<forall>time axes0 pfx axes'. plot_learning ssvm0 time axes0 pfx = Inr axes' \<longrightarrow>
          (\<exists>its. get_iterations (unwrap ssvm0) = Inr its
             \<and> added (normalise_axes axes0 (n_plots (unwrap ssvm0))) axes' 1 =
                 [SetXLabel (x_label time),
                  Plot (error_x (nat k) (x_axis (unwrap ssvm0) time its) loss) loss None None,
                  SetTitle ''Training Error'', SetYScale ''log''])))
    \<and> (show_loss_every (unwrap ssvm0) = None \<or> show_loss_every (unwrap ssvm0) = Some 0 \<longrightarrow>
      (\<forall>inds a p. 1 < length a \<longrightarrow> a ! 1 = Axes p \<longrightarrow>
            plot_loss (unwrap ssvm0) inds loss a =
              Inr (a[1 := Axes (p @ [Plot (index_axis loss) loss None None])]))
      \<and> (\<forall>time axes0 pfx axes'. plot_learning ssvm0 time axes0 pfx = Inr axes' \<longrightarrow>
             added (normalise_axes axes0 (n_plots (unwrap ssvm0))) axes' 1 =
                 [SetXLabel (x_label time), Plot (index_axis loss) loss None None,
                  SetTitle ''Training Error'', SetYScale ''log'']))
    \<and> length (index_axis loss) = length loss
    \<and> (\<forall>i<length loss. index_axis loss ! i = real i)
    \<and> plot_learning stride_ssvm False (AxesList [Axes [], Axes []]) [] =
        Inr [Axes [SetXLabel ''Passes through training data'', SetTitle ''Objective'',
                   Legend ''best''],
             Axes [SetXLabel ''Passes through training data'',
                   Plot [0, 1, 2, 3, 4] [5, 4, 3, 2, 1] None None,
                   SetTitle ''Training Error'', SetYScale ''log'']]"
proof -
  have step: "plot_loss (unwrap ssvm0) inds loss a =
      Inr (a[1 := Axes (p @ [Plot (loss_x (unwrap ssvm0) inds loss) loss None None])])"
    if "1 < length a" "a ! 1 = Axes p" for inds a p
  proof -
    have "length (loss_x (unwrap ssvm0) inds loss) = length loss"
      by (simp add: loss_x_def split: sum.splits)
    with that show ?thesis by (simp add: plot_loss_eq ax_plot_def)
  qed
  have call: "\<exists>its. get_iterations (unwrap ssvm0) = Inr its
      \<and> added (normalise_axes axes0 (n_plots (unwrap ssvm0))) axes' 1 =
          [SetXLabel (x_label time),
           Plot (loss_x (unwrap ssvm0) (x_axis (unwrap ssvm0) time its) loss) loss None None,
           SetTitle ''Training Error'', SetYScale ''log'']"
    if "plot_learning ssvm0 time axes0 pfx = Inr axes'" for time axes0 pfx axes'
    using plot_learning_added [OF that] assms by (auto simp: error_cmds_def)
  have pos: "(\<forall>inds a p. 1 < length a \<longrightarrow> a ! 1 = Axes p \<longrightarrow>
            plot_loss (unwrap ssvm0) inds loss a =
              Inr (a[1 := Axes (p @ [Plot (error_x (nat k) inds loss) loss None None])]))
      \<and> (\<forall>time axes0 pfx axes'. plot_learning ssvm0 time axes0 pfx = Inr axes' \<longrightarrow>
          (\<exists>its. get_iterations (unwrap ssvm0) = Inr its
             \<and> added (normalise_axes axes0 (n_plots (unwrap ssvm0))) axes' 1 =
                 [SetXLabel (x_label time),
                  Plot (error_x (nat k) (x_axis (unwrap ssvm0) time its) loss) loss None None,
                  SetTitle ''Training Error'', SetYScale ''log'']))"
    if k: "show_loss_every (unwrap ssvm0) = Some k" "0 < k" for k
    using step call by (simp add: loss_x_positive [OF k, symmetric])
  have none: "(\<forall>inds a p. 1 < length a \<longrightarrow> a ! 1 = Axes p \<longrightarrow>
            plot_loss (unwrap ssvm0) inds loss a =
              Inr (a[1 := Axes (p @ [Plot (index_axis loss) loss None None])]))
      \<and> (\<forall>time axes0 pfx axes'. plot_learning ssvm0 time axes0 pfx = Inr axes' \<longrightarrow>
             added (normalise_axes axes0 (n_plots (unwrap ssvm0))) axes' 1 =
                 [SetXLabel (x_label time), Plot (index_axis loss) loss None None,
                  SetTitle ''Training Error'', SetYScale ''log''])"
    if k: "show_loss_every (unwrap ssvm0) = None \<or> show_loss_every (unwrap ssvm0) = Some 0"
  proof (intro conjI allI impI)
    fix inds a p assume "1 < length a" "a ! 1 = Axes p"
    then show "plot_loss (unwrap ssvm0) inds loss a =
              Inr (a[1 := Axes (p @ [Plot (index_axis loss) loss None None])])"
      using step [of a p inds] by (simp add: loss_x_absent [OF k])
  next
    fix time axes0 pfx axes'
    assume "plot_learning ssvm0 time axes0 pfx = Inr axes'"
    from call [OF this] show "added (normalise_axes axes0 (n_plots (unwrap ssvm0))) axes' 1 =
                 [SetXLabel (x_label time), Plot (index_axis loss) loss None None,
                  SetTitle ''Training Error'', SetYScale ''log'']"
      by (auto simp: loss_x_absent [OF k])
  qed
  have ex: "plot_learning stride_ssvm False (AxesList [Axes [], Axes []]) [] =
        Inr [Axes [SetXLabel ''Passes through training data'', SetTitle ''Objective'',
                   Legend ''best''],
             Axes [SetXLabel ''Passes through training data'',
                   Plot [0, 1, 2, 3, 4] [5, 4, 3, 2, 1] None None,
                   SetTitle ''Training Error'', SetYScale ''log'']]"
    by (simp add: model_defs example_defs upt_conv_Cons err_bind_def)
  from pos none ex show ?thesis
    by (simp add: index_axis_nth)
qed

text \<open>
  The claim as stated fails for a learner without \<^verbatim>\<open>show_loss_every\<close>, for which the
  data model gives the stride 1: with \<^verbatim>\<open>iterations_\<close> 5, 6, 7 and three loss values the
  x-axis taken whole is as long as the loss curve, and the loss curve is plotted against
  0, 1, 2 all the same.
\<close>

theorem C3_counterexample:
  "show_loss_every (unwrap unstrided_ssvm) = None
   \<and> loss_curve (unwrap unstrided_ssvm) = Some [3, 2, 1]
   \<and> error_x 1 [5, 6, 7] [3, 2, 1] = [5, 6, 7]
   \<and> plot_learning unstrided_ssvm False (AxesList [Axes [], Axes []]) [] =
        Inr [Axes [SetXLabel ''Passes through training data'', SetTitle ''Objective'',
                   Legend ''best''],
             Axes [SetXLabel ''Passes through training data'',
                   Plot [0, 1, 2] [3, 2, 1] None None,
                   SetTitle ''Training Error'', SetYScale ''log'']]"
  by (simp add: model_defs example_defs error_x_def subsample_def upt_conv_Cons err_bind_def)

theorem C3_witness:
  "loss_curve (unwrap stride_ssvm) = Some [5, 4, 3, 2, 1]
   \<and> show_loss_every (unwrap stride_ssvm) = Some 2
   \<and> (0 :: int) < 2
   \<and> plot_loss (unwrap stride_ssvm) [0, 1, 2, 3, 4, 5, 6, 7] [5, 4, 3, 2, 1] [Axes [], Axes []] =
        Inr [Axes [], Axes [Plot [0, 1, 2, 3, 4] [5, 4, 3, 2, 1] None None]]
   \<and> (\<exists>axes'. plot_learning stride_ssvm False (AxesList [Axes [], Axes []]) [] = Inr axes'
        \<and> added [Axes [], Axes []] axes' 1 =
            [SetXLabel ''Passes through training data'',
             Plot [0, 1, 2, 3, 4] [5, 4, 3, 2, 1] None None,
             SetTitle ''Training Error'', SetYScale ''log''])
   \<and> loss_curve (unwrap unstrided_ssvm) = Some [3, 2, 1]
   \<and> show_loss_every (unwrap unstrided_ssvm) = None
   \<and> plot_loss (unwrap unstrided_ssvm) [5, 6, 7] [3, 2, 1] [Axes [], Axes []] =
        Inr [Axes [], Axes [Plot [0, 1, 2] [3, 2, 1] None None]]"
proof -
  have a: "loss_curve (unwrap stride_ssvm) = Some [5, 4, 3, 2, 1]"
    and b: "show_loss_every (unwrap stride_ssvm) = Some 2"
    and c: "(0 :: int) < 2"
    by (simp_all add: stride_ssvm_def unwrap_def)
  have a': "loss_curve (unwrap unstrided_ssvm) = Some [3, 2, 1]"
    and b': "show_loss_every (unwrap unstrided_ssvm) = None"
    by (simp_all add: unstrided_ssvm_def unwrap_def)
  note th = C3_error_panel_x_values [OF a]
  note th' = C3_error_panel_x_values [OF a']
  have its: "get_iterations (unwrap stride_ssvm) = Inr [0, 1, 2, 3, 4, 5, 6, 7]"
    by (simp add: stride_ssvm_def unwrap_def get_iterations_def iteration_axis_def
        report_objective_def)
  have x: "x_axis (unwrap stride_ssvm) False [0, 1, 2, 3, 4, 5, 6, 7] = [0, 1, 2, 3, 4, 5, 6, 7]"
    by (simp add: stride_ssvm_def unwrap_def x_axis_def)
  have n: "normalise_axes (AxesList [Axes [], Axes []]) (n_plots (unwrap stride_ssvm))
      = [Axes [], Axes []]"
    by (simp add: normalise_axes_def)
  have ix: "index_axis [3, 2, 1 :: real] = [0, 1, 2]"
    by (simp add: index_axis_def upt_conv_Cons)
  from th b c have step: "\<And>inds a p. 1 < length a \<Longrightarrow> a ! 1 = Axes p \<Longrightarrow>
      plot_loss (unwrap stride_ssvm) inds [5, 4, 3, 2, 1] a =
        Inr (a[1 := Axes (p @ [Plot (error_x (nat 2) inds [5, 4, 3, 2, 1]) [5, 4, 3, 2, 1]
          None None])])"
    by blast
  have 1: "plot_loss (unwrap stride_ssvm) [0, 1, 2, 3, 4, 5, 6, 7] [5, 4, 3, 2, 1]
      [Axes [], Axes []] = Inr [Axes [], Axes [Plot [0, 1, 2, 3, 4] [5, 4, 3, 2, 1] None None]]"
    using step [of "[Axes [], Axes []]" "[]" "[0, 1, 2, 3, 4, 5, 6, 7]"]
    by (simp add: error_x_example)
  from th obtain axes' where r: "plot_learning stride_ssvm False (AxesList [Axes [], Axes []]) [] = Inr axes'"
    by blast
  with th b c obtain its' where "get_iterations (unwrap stride_ssvm) = Inr its'"
    "added (normalise_axes (AxesList [Axes [], Axes []]) (n_plots (unwrap stride_ssvm))) axes' 1 =
       [SetXLabel (x_label False),
        Plot (error_x (nat 2) (x_axis (unwrap stride_ssvm) False its') [5, 4, 3, 2, 1])
          [5, 4, 3, 2, 1] None None,
        SetTitle ''Training Error'', SetYScale ''log'']"
    by blast
  with its have 2: "added [Axes [], Axes []] axes' 1 =
            [SetXLabel ''Passes through training data'',
             Plot [0, 1, 2, 3, 4] [5, 4, 3, 2, 1] None None,
             SetTitle ''Training Error'', SetYScale ''log'']"
    by (simp add: n x error_x_example x_label_def)
  from th' b' have step': "\<And>inds a p. 1 < length a \<Longrightarrow> a ! 1 = Axes p \<Longrightarrow>
      plot_loss (unwrap unstrided_ssvm) inds [3, 2, 1] a =
        Inr (a[1 := Axes (p @ [Plot (index_axis [3, 2, 1 :: real]) [3, 2, 1] None None])])"
    by blast
  have 3: "plot_loss (unwrap unstrided_ssvm) [5, 6, 7] [3, 2, 1] [Axes [], Axes []] =
        Inr [Axes [], Axes [Plot [0, 1, 2] [3, 2, 1] None None]]"
    using step' [of "[Axes [], Axes []]" "[]" "[5, 6, 7]"] by (simp add: ix)
  from a b c 1 r 2 a' b' 3 show ?thesis by blast
qed

section \<open>The panel count of a batch\<close>

text \<open>
  Claim C2, on a batch of one wrapping learner that has no loss curve itself and whose
  \<^verbatim>\<open>base_ssvm\<close> has one: \<^verbatim>\<open>main\<close> probes the loaded object and creates one
  panel, \<^verbatim>\<open>plot_learning\<close> probes the wrapped learner and counts two, and the call
  fails with \<^verbatim>\<open>IndexError\<close> on the missing second axes object. On a batch of two
  unwrapped learners of which one has a loss curve, \<^verbatim>\<open>main\<close> counts two panels.
\<close>

theorem C2_main_probes_the_wrapper:
  "main_n_plots [wrapped_ssvm] = 1
   \<and> n_plots (unwrap wrapped_ssvm) = 2
   \<and> main [(''a.pickle'', wrapped_ssvm)] False = Inl IndexError
   \<and> main_n_plots [plain_ssvm, stride_ssvm] = 2"
  by (simp add: model_defs example_defs upt_conv_Cons)

end
